theory Spec2Isabelle
  imports Main
begin

section \<open>Bytes, strings and errors\<close>

text \<open>
  A Go \<^verbatim>\<open>string\<close> and a Go \<^verbatim>\<open>[]byte\<close> are both sequences of bytes, and the conversions
  \<^verbatim>\<open>[]byte(s)\<close> and \<^verbatim>\<open>string(b)\<close> keep the bytes. Both are lists of \<^typ>\<open>char\<close> here
  (a \<^typ>\<open>char\<close> is one byte).
\<close>

type_synonym bytes = string

text \<open>
  Go errors as values. \<open>errors_New s\<close> is \<^verbatim>\<open>errors.New(s)\<close>; \<open>fmt_Errorf f args\<close> is
  \<^verbatim>\<open>fmt.Errorf(f, args...)\<close> with the format string and the arguments kept apart
  (\<open>ArgW\<close> is an error under the verb \<^verbatim>\<open>%w\<close>, \<open>ArgV\<close> an error under \<^verbatim>\<open>%v\<close>, \<open>ArgS\<close> a
  string, \<open>ArgD\<close> a number). The other constructors are error types of the libraries:
  \<^verbatim>\<open>base64.CorruptInputError\<close> (without its offset), \<^verbatim>\<open>aes.KeySizeError\<close>, and an error
  reported by the operating system or by the storage engine.
\<close>

datatype error =
    errors_New string
  | fmt_Errorf string "arg list"
  | CorruptInputError
  | KeySizeError nat
  | os_Error string
and arg =
    ArgS string
  | ArgD nat
  | ArgV error
  | ArgW error

definition io_EOF :: error where
  "io_EOF = errors_New ''EOF''"

definition io_ErrUnexpectedEOF :: error where
  "io_ErrUnexpectedEOF = errors_New ''unexpected EOF''"

definition sql_ErrNoRows :: error where
  "sql_ErrNoRows = errors_New ''sql: no rows in result set''"

section \<open>encoding/base64, StdEncoding\<close>

definition encodeStd :: string where
  "encodeStd = ''ABCDEFGHIJKLMNOPQRSTUVWXYZabcdefghijklmnopqrstuvwxyz0123456789+/''"

definition padChar :: char where
  "padChar = CHR ''=''"

text \<open>
  \<^verbatim>\<open>Encode\<close>: three source bytes are joined into one 24-bit value
  (\<^verbatim>\<open>src[0]<<16 | src[1]<<8 | src[2]\<close>; the fields do not overlap, so the value is the sum)
  and cut into four 6-bit indices (\<^verbatim>\<open>val>>18&0x3F\<close>, ...) into the alphabet. One or two
  remaining bytes are encoded with padding.
\<close>

fun b64Encode :: "bytes \<Rightarrow> string" where
  "b64Encode [] = []"
| "b64Encode [a] =
     (let val = of_char a * 65536 in
        [encodeStd ! ((val div 262144) mod 64), encodeStd ! ((val div 4096) mod 64),
         padChar, padChar])"
| "b64Encode [a, b] =
     (let val = of_char a * 65536 + of_char b * 256 in
        [encodeStd ! ((val div 262144) mod 64), encodeStd ! ((val div 4096) mod 64),
         encodeStd ! ((val div 64) mod 64), padChar])"
| "b64Encode (a # b # c # src) =
     (let val = of_char a * 65536 + of_char b * 256 + of_char c in
        [encodeStd ! ((val div 262144) mod 64), encodeStd ! ((val div 4096) mod 64),
         encodeStd ! ((val div 64) mod 64), encodeStd ! (val mod 64)] @ b64Encode src)"

text \<open>\<^verbatim>\<open>decodeMap\<close>: the index of a character in the alphabet, \<open>None\<close> for Go's \<^verbatim>\<open>0xff\<close>.\<close>

fun indexOf :: "'a \<Rightarrow> 'a list \<Rightarrow> nat option" where
  "indexOf x [] = None"
| "indexOf x (y # ys) =
     (if x = y then Some 0 else map_option Suc (indexOf x ys))"

definition decodeMap :: "char \<Rightarrow> nat option" where
  "decodeMap c = indexOf c encodeStd"

definition isNewline :: "char \<Rightarrow> bool" where
  "isNewline c \<longleftrightarrow> c = CHR 0x0A \<or> c = CHR 0x0D"

text \<open>
  The last step of \<^verbatim>\<open>decodeQuantum\<close>: the \<open>dlen\<close> collected 6-bit values (missing ones are
  zero) are joined into 24 bits and the first \<open>dlen - 1\<close> bytes are written.
\<close>

definition quantumBytes :: "nat list \<Rightarrow> bytes" where
  "quantumBytes dbuf =
     (let d = dbuf @ replicate (4 - length dbuf) 0;
          val = d ! 0 * 262144 + d ! 1 * 4096 + d ! 2 * 64 + d ! 3
      in take (length dbuf - 1)
           [char_of (val div 65536), char_of (val div 256), char_of val])"

text \<open>
  \<^verbatim>\<open>Decode\<close> calls \<^verbatim>\<open>decodeQuantum\<close> until the source is used up or an error occurs.
  \<open>dbuf\<close> holds the values of the quantum being read. Newlines are skipped; padding ends
  the input; the encoding is not strict (the unused bits of a padded quantum are not
  checked). \<^verbatim>\<open>DecodeString\<close> returns the bytes decoded so far together with the error;
  every caller here drops them, so an error is returned alone, without its offset.
\<close>

fun b64Decode :: "nat list \<Rightarrow> string \<Rightarrow> error + bytes" where
  "b64Decode dbuf [] = (if dbuf = [] then Inr [] else Inl CorruptInputError)"
| "b64Decode dbuf (c # src) =
     (case decodeMap c of
        Some out \<Rightarrow>
          (if length dbuf \<ge> 3 then
             (case b64Decode [] src of
                Inl e \<Rightarrow> Inl e
              | Inr rest \<Rightarrow> Inr (quantumBytes (dbuf @ [out]) @ rest))
           else b64Decode (dbuf @ [out]) src)
      | None \<Rightarrow>
          if isNewline c then b64Decode dbuf src
          else if c \<noteq> padChar then Inl CorruptInputError
          else if length dbuf < 2 then Inl CorruptInputError
          else if length dbuf = 2 then
            (case dropWhile isNewline src of
               [] \<Rightarrow> Inl CorruptInputError
             | c' # src' \<Rightarrow>
                 if c' \<noteq> padChar then Inl CorruptInputError
                 else if dropWhile isNewline src' \<noteq> [] then Inl CorruptInputError
                 else Inr (quantumBytes dbuf))
          else if dropWhile isNewline src \<noteq> [] then Inl CorruptInputError
          else Inr (quantumBytes dbuf))"

definition EncodeToString :: "bytes \<Rightarrow> string" where
  "EncodeToString src = b64Encode src"

definition DecodeString :: "string \<Rightarrow> error + bytes" where
  "DecodeString s = b64Decode [] s"

section \<open>Library primitives of internal/security/encryption.go\<close>

text \<open>
  \<^verbatim>\<open>io.ReadFull(rand.Reader, buf)\<close>: \<open>r\<close> is the bytes the random source still delivers;
  the call fills a buffer of \<open>n\<close> bytes or fails.
\<close>

definition io_ReadFull :: "bytes \<Rightarrow> nat \<Rightarrow> error + bytes" where
  "io_ReadFull r n =
     (if n \<le> length r then Inr (take n r)
      else if r = [] then Inl io_EOF
      else Inl io_ErrUnexpectedEOF)"

text \<open>
  An AEAD of \<^verbatim>\<open>crypto/cipher\<close>, keyed: \<open>Seal key nonce plaintext\<close> is the ciphertext
  followed by the tag, \<open>Open key nonce ciphertext\<close> is the plaintext, or \<open>None\<close> when
  authentication fails. The additional data is \<^verbatim>\<open>nil\<close> in every call of the package.
  AES-GCM and ChaCha20-Poly1305 themselves are library code and enter as parameters.
\<close>

record aead =
  Seal :: "bytes \<Rightarrow> bytes \<Rightarrow> bytes \<Rightarrow> bytes"
  Open :: "bytes \<Rightarrow> bytes \<Rightarrow> bytes \<Rightarrow> bytes option"

text \<open>\<^verbatim>\<open>aes.NewCipher\<close> accepts keys of 16, 24 or 32 bytes; the block is known by its key.\<close>

definition aes_NewCipher :: "bytes \<Rightarrow> error + bytes" where
  "aes_NewCipher k =
     (if length k = 16 \<or> length k = 24 \<or> length k = 32 then Inr k
      else Inl (KeySizeError (length k)))"

text \<open>\<^verbatim>\<open>cipher.NewGCM\<close> on an AES block does not fail; its nonce has 12 bytes.\<close>

definition gcm_NonceSize :: nat where
  "gcm_NonceSize = 12"

definition gcm_errOpen :: error where
  "gcm_errOpen = errors_New ''cipher: message authentication failed''"

definition chacha20poly1305_KeySize :: nat where
  "chacha20poly1305_KeySize = 32"

definition chacha20poly1305_NonceSize :: nat where
  "chacha20poly1305_NonceSize = 12"

definition chacha20poly1305_New :: "bytes \<Rightarrow> error + bytes" where
  "chacha20poly1305_New k =
     (if length k \<noteq> chacha20poly1305_KeySize
      then Inl (errors_New ''chacha20poly1305: bad key length'')
      else Inr k)"

definition chacha20poly1305_ErrOpen :: error where
  "chacha20poly1305_ErrOpen = errors_New ''chacha20poly1305: message authentication failed''"

text \<open>
  \<^verbatim>\<open>pbkdf2.Key(password, salt, iter, keyLen, h)\<close> is a parameter of this type; \<open>h\<close> is one of
  the hash constructors of \<^verbatim>\<open>x/crypto/sha3\<close>.
\<close>

datatype hash_new = sha3_New224 | sha3_New256 | sha3_New384 | sha3_New512

type_synonym pbkdf2 = "bytes \<Rightarrow> bytes \<Rightarrow> nat \<Rightarrow> nat \<Rightarrow> hash_new \<Rightarrow> bytes"

section \<open>internal/security/encryption.go\<close>

definition pbkdf2Iterations :: nat where
  "pbkdf2Iterations = 10000"

definition aes256KeySize :: nat where
  "aes256KeySize = 32"

definition chacha20KeySize :: nat where
  "chacha20KeySize = 32"

definition hardcodedEncryptionKey :: string where
  "hardcodedEncryptionKey = ''YourSuperSecretHardcodedKeyHere-ChangeInProduction!''"

definition ErrInvalidCiphertext :: error where
  "ErrInvalidCiphertext = errors_New ''invalid ciphertext''"

definition ErrInvalidKey :: error where
  "ErrInvalidKey = errors_New ''invalid encryption key''"

record ConfigEncryption =
  ce_machineID :: string
  ce_key :: bytes

definition NewConfigEncryption :: "pbkdf2 \<Rightarrow> string \<Rightarrow> error + ConfigEncryption" where
  "NewConfigEncryption pbkdf2_Key machineID =
     (if machineID = [] then Inl (errors_New ''machine ID cannot be empty'')
      else Inr \<lparr>ce_machineID = machineID,
                ce_key = pbkdf2_Key hardcodedEncryptionKey machineID pbkdf2Iterations
                           aes256KeySize sha3_New256\<rparr>)"

text \<open>
  \<^verbatim>\<open>gcm.Seal(nonce, nonce, plaintext, nil)\<close> appends the sealed text to its first argument,
  so the envelope is the nonce followed by ciphertext and tag.
\<close>

definition ce_Encrypt :: "aead \<Rightarrow> ConfigEncryption \<Rightarrow> bytes \<Rightarrow> bytes \<Rightarrow> error + string" where
  "ce_Encrypt gcm ce rand_Reader plaintext =
     (case aes_NewCipher (ce_key ce) of
        Inl err \<Rightarrow> Inl (fmt_Errorf ''failed to create cipher: %w'' [ArgW err])
      | Inr block \<Rightarrow>
          (case io_ReadFull rand_Reader gcm_NonceSize of
             Inl err \<Rightarrow> Inl (fmt_Errorf ''failed to generate nonce: %w'' [ArgW err])
           | Inr nonce \<Rightarrow>
               Inr (EncodeToString (nonce @ Seal gcm block nonce plaintext))))"

definition ce_Decrypt :: "aead \<Rightarrow> ConfigEncryption \<Rightarrow> string \<Rightarrow> error + bytes" where
  "ce_Decrypt gcm ce ciphertextB64 =
     (case DecodeString ciphertextB64 of
        Inl err \<Rightarrow> Inl (fmt_Errorf ''failed to decode base64: %w'' [ArgW err])
      | Inr ciphertext \<Rightarrow>
          (case aes_NewCipher (ce_key ce) of
             Inl err \<Rightarrow> Inl (fmt_Errorf ''failed to create cipher: %w'' [ArgW err])
           | Inr block \<Rightarrow>
               if length ciphertext < gcm_NonceSize then Inl ErrInvalidCiphertext
               else
                 (case Open gcm block (take gcm_NonceSize ciphertext)
                         (drop gcm_NonceSize ciphertext) of
                    None \<Rightarrow> Inl (fmt_Errorf ''failed to decrypt: %w'' [ArgW gcm_errOpen])
                  | Some plaintext \<Rightarrow> Inr plaintext)))"

record DatabaseEncryption =
  serverKey :: bytes

definition NewDatabaseEncryption :: "bytes \<Rightarrow> error + DatabaseEncryption" where
  "NewDatabaseEncryption key =
     (if length key \<noteq> chacha20KeySize
      then Inl (fmt_Errorf ''%w: server key must be %d bytes''
                  [ArgW ErrInvalidKey, ArgD chacha20KeySize])
      else Inr \<lparr>serverKey = key\<rparr>)"

definition de_Encrypt :: "aead \<Rightarrow> DatabaseEncryption \<Rightarrow> bytes \<Rightarrow> bytes \<Rightarrow> error + string" where
  "de_Encrypt chacha de rand_Reader plaintext =
     (case chacha20poly1305_New (serverKey de) of
        Inl err \<Rightarrow> Inl (fmt_Errorf ''failed to create chacha20poly1305: %w'' [ArgW err])
      | Inr k \<Rightarrow>
          (case io_ReadFull rand_Reader chacha20poly1305_NonceSize of
             Inl err \<Rightarrow> Inl (fmt_Errorf ''failed to generate nonce: %w'' [ArgW err])
           | Inr nonce \<Rightarrow>
               Inr (EncodeToString (nonce @ Seal chacha k nonce plaintext))))"

definition de_Decrypt :: "aead \<Rightarrow> DatabaseEncryption \<Rightarrow> string \<Rightarrow> error + bytes" where
  "de_Decrypt chacha de ciphertextB64 =
     (case DecodeString ciphertextB64 of
        Inl err \<Rightarrow> Inl (fmt_Errorf ''failed to decode base64: %w'' [ArgW err])
      | Inr ciphertext \<Rightarrow>
          (case chacha20poly1305_New (serverKey de) of
             Inl err \<Rightarrow> Inl (fmt_Errorf ''failed to create chacha20poly1305: %w'' [ArgW err])
           | Inr k \<Rightarrow>
               if length ciphertext < chacha20poly1305_NonceSize then Inl ErrInvalidCiphertext
               else
                 (case Open chacha k (take chacha20poly1305_NonceSize ciphertext)
                         (drop chacha20poly1305_NonceSize ciphertext) of
                    None \<Rightarrow>
                      Inl (fmt_Errorf ''failed to decrypt: %w'' [ArgW chacha20poly1305_ErrOpen])
                  | Some plaintext \<Rightarrow> Inr plaintext)))"

definition GenerateServerKey :: "bytes \<Rightarrow> error + bytes" where
  "GenerateServerKey rand_Reader =
     (case io_ReadFull rand_Reader chacha20KeySize of
        Inl err \<Rightarrow> Inl (fmt_Errorf ''failed to generate server key: %w'' [ArgW err])
      | Inr key \<Rightarrow> Inr key)"

definition ServerKeyToBase64 :: "bytes \<Rightarrow> string" where
  "ServerKeyToBase64 key = EncodeToString key"

definition ServerKeyFromBase64 :: "string \<Rightarrow> error + bytes" where
  "ServerKeyFromBase64 keyB64 =
     (case DecodeString keyB64 of
        Inl err \<Rightarrow> Inl (fmt_Errorf ''failed to decode server key: %w'' [ArgW err])
      | Inr key \<Rightarrow>
          if length key \<noteq> chacha20KeySize
          then Inl (fmt_Errorf ''invalid server key length: expected %d, got %d''
                      [ArgD chacha20KeySize, ArgD (length key)])
          else Inr key)"

section \<open>Machine identity (package security)\<close>

text \<open>
  What the operating system answers on one host: the results of the registry and file
  reads, of \<^verbatim>\<open>net.Interfaces\<close> and of \<^verbatim>\<open>os.Hostname\<close>, together with the package
  variable \<^verbatim>\<open>cachedMachineID\<close>. \<open>persisted\<close> is the result of reading the stored
  machine id (the registry value \<^verbatim>\<open>SOFTWARE\POSService\MachineID\<close> on Windows, the file
  \<^verbatim>\<open>/var/lib/posservice/machine_id\<close> on Linux); \<open>dirError\<close> and \<open>writeError\<close> are the
  errors, if any, of creating the key or directory and of writing the value.
  The mutex is not modelled: calls run one after the other.
\<close>

datatype goos = windows | linux

record net_Interface =
  flagLoopback :: bool
  flagUp :: bool
  hardwareAddr :: string

record host =
  cachedMachineID :: string
  persisted :: "error + string"
  dirError :: "error option"
  writeError :: "error option"
  windowsProductID :: "error + string"
  cpuInfo :: "error + string"
  etc_machine_id :: "error + bytes"
  dbus_machine_id :: "error + bytes"
  net_Interfaces :: "error + net_Interface list"
  os_Hostname :: "error + string"

text \<open>\<^verbatim>\<open>strings.TrimSpace\<close> is library code and enters as the parameter \<open>TrimSpace\<close>.\<close>

definition readMachineIDFromRegistry ::
    "(string \<Rightarrow> string) \<Rightarrow> goos \<Rightarrow> host \<Rightarrow> error + string" where
  "readMachineIDFromRegistry TrimSpace os h =
     (case persisted h of
        Inl err \<Rightarrow> Inl err
      | Inr data \<Rightarrow> (case os of windows \<Rightarrow> Inr data | linux \<Rightarrow> Inr (TrimSpace data)))"

definition saveMachineIDToRegistry :: "goos \<Rightarrow> host \<Rightarrow> string \<Rightarrow> error option \<times> host" where
  "saveMachineIDToRegistry os h machineID =
     (case dirError h of
        Some err \<Rightarrow>
          (case os of
             windows \<Rightarrow> (Some err, h)
           | linux \<Rightarrow> (Some (fmt_Errorf ''failed to create directory: %w'' [ArgW err]), h))
      | None \<Rightarrow>
          (case writeError h of
             Some err \<Rightarrow>
               (case os of
                  windows \<Rightarrow> (Some err, h)
                | linux \<Rightarrow>
                    (Some (fmt_Errorf ''failed to write machine ID file: %w'' [ArgW err]), h))
           | None \<Rightarrow> (None, h\<lparr>persisted := Inr machineID\<rparr>)))"

definition platformSpecificID ::
    "(string \<Rightarrow> string) \<Rightarrow> goos \<Rightarrow> host \<Rightarrow> error + string list" where
  "platformSpecificID TrimSpace os h =
     (case os of
        windows \<Rightarrow>
          (let data = (case windowsProductID h of Inr productID \<Rightarrow> [productID] | Inl _ \<Rightarrow> []);
               data = data @ (case cpuInfo h of Inr c \<Rightarrow> [c] | Inl _ \<Rightarrow> [])
           in if data = [] then Inl (fmt_Errorf ''could not collect Windows-specific data'' [])
              else Inr data)
      | linux \<Rightarrow>
          (let data = (case etc_machine_id h of
                         Inr machineID \<Rightarrow> if machineID \<noteq> [] then [TrimSpace machineID] else []
                       | Inl _ \<Rightarrow> []);
               data = (if data = [] then
                         (case dbus_machine_id h of
                            Inr dbusMachineID \<Rightarrow>
                              if dbusMachineID \<noteq> [] then [TrimSpace dbusMachineID] else []
                          | Inl _ \<Rightarrow> [])
                       else data);
               data = data @ (case cpuInfo h of Inr c \<Rightarrow> [c] | Inl _ \<Rightarrow> [])
           in if data = [] then Inl (fmt_Errorf ''could not collect Linux-specific data'' [])
              else Inr data))"

fun firstMAC :: "net_Interface list \<Rightarrow> error + string" where
  "firstMAC [] = Inl (fmt_Errorf ''no valid network interface found'' [])"
| "firstMAC (iface # interfaces) =
     (if flagLoopback iface \<or> \<not> flagUp iface then firstMAC interfaces
      else if hardwareAddr iface \<noteq> [] then Inr (hardwareAddr iface)
      else firstMAC interfaces)"

definition getPrimaryMACAddress :: "host \<Rightarrow> error + string" where
  "getPrimaryMACAddress h =
     (case net_Interfaces h of Inl err \<Rightarrow> Inl err | Inr interfaces \<Rightarrow> firstMAC interfaces)"

definition hextable :: string where
  "hextable = ''0123456789abcdef''"

text \<open>\<^verbatim>\<open>hex.EncodeToString\<close>: two characters for each byte, \<^verbatim>\<open>hextable[v>>4]\<close> and \<^verbatim>\<open>hextable[v&0x0f]\<close>.\<close>

definition hex_EncodeToString :: "bytes \<Rightarrow> string" where
  "hex_EncodeToString src =
     concat (map (\<lambda>v. [hextable ! (of_char v div 16), hextable ! (of_char v mod 16)]) src)"

text \<open>
  \<^verbatim>\<open>sha256.Sum256\<close> is library code and enters as the parameter \<open>Sum256\<close>; its result type
  \<^verbatim>\<open>[32]byte\<close> is the hypothesis \<open>length (Sum256 x) = 32\<close> where a theorem needs it.
\<close>

definition generateMachineID ::
    "(string \<Rightarrow> string) \<Rightarrow> (bytes \<Rightarrow> bytes) \<Rightarrow> goos \<Rightarrow> host \<Rightarrow> error + string" where
  "generateMachineID TrimSpace Sum256 os h =
     (let data = (case platformSpecificID TrimSpace os h of
                    Inr platformData \<Rightarrow> platformData | Inl _ \<Rightarrow> []);
          data = data @ (case getPrimaryMACAddress h of Inr macAddr \<Rightarrow> [macAddr] | Inl _ \<Rightarrow> []);
          data = data @ (case os_Hostname h of Inr hostname \<Rightarrow> [hostname] | Inl _ \<Rightarrow> [])
      in if data = []
         then Inl (fmt_Errorf ''could not collect any machine-specific data'' [])
         else Inr (hex_EncodeToString (Sum256 (concat (map (\<lambda>d. d @ ''|'') data)))))"

text \<open>
  \<^verbatim>\<open>GetMachineID\<close> returns its result and the host afterwards. The cache is checked under
  the read lock and again under the write lock; run alone, both checks read the same value.
  A failure to save is printed as a warning and otherwise ignored.
\<close>

definition GetMachineID ::
    "(string \<Rightarrow> string) \<Rightarrow> (bytes \<Rightarrow> bytes) \<Rightarrow> goos \<Rightarrow> host \<Rightarrow> (error + string) \<times> host" where
  "GetMachineID TrimSpace Sum256 os h =
     (if cachedMachineID h \<noteq> [] then (Inr (cachedMachineID h), h)
      else
        (let stored = readMachineIDFromRegistry TrimSpace os h in
           if \<not> isl stored \<and> projr stored \<noteq> []
           then (Inr (projr stored), h\<lparr>cachedMachineID := projr stored\<rparr>)
           else
             (case generateMachineID TrimSpace Sum256 os h of
                Inl err \<Rightarrow> (Inl (fmt_Errorf ''failed to generate machine ID: %w'' [ArgW err]), h)
              | Inr machineID \<Rightarrow>
                  (Inr machineID,
                   (snd (saveMachineIDToRegistry os h machineID))
                     \<lparr>cachedMachineID := machineID\<rparr>))))"

text \<open>
  The checks of \<^verbatim>\<open>TestGenerateMachineID\<close> on a machine id: 64 characters, each of them one
  of \<^verbatim>\<open>0-9\<close> and \<^verbatim>\<open>a-f\<close>.
\<close>

definition hexFingerprint :: "string \<Rightarrow> bool" where
  "hexFingerprint machineID \<longleftrightarrow>
     length machineID = 64 \<and> (\<forall>c \<in> set machineID. c \<in> set ''0123456789abcdef'')"

section \<open>internal/database/sqlite.go\<close>

text \<open>
  The table \<^verbatim>\<open>settings\<close>: its rows in the order of a full scan. The column \<^verbatim>\<open>key\<close> is the
  primary key, so no two rows of a table share it (\<open>primaryKey\<close>). Timestamps are numbers;
  \<^verbatim>\<open>CURRENT_TIMESTAMP\<close> is the parameter \<open>now\<close> of a statement.
\<close>

record row =
  row_key :: string
  row_value :: string
  created_at :: nat
  updated_at :: nat

type_synonym table = "row list"

definition primaryKey :: "table \<Rightarrow> bool" where
  "primaryKey t \<longleftrightarrow> distinct (map row_key t)"

text \<open>
  The calls of \<^verbatim>\<open>database/sql\<close> that can report an error, and the connection: the
  committed table, the working table of the open transaction if there is one, and the
  error, if any, the storage engine answers to each kind of call. Writes of a
  transaction reach the committed table when it commits, and only then.
\<close>

datatype sqlcall =
  Begin | Commit | Rollback | Exec | Query | Scan | RowsAffected | RowsErr

record sql_DB =
  rows_settings :: table
  tx :: "table option"
  fault :: "sqlcall \<Rightarrow> error option"

record DB =
  conn :: sql_DB
  encryption :: DatabaseEncryption

text \<open>\<^verbatim>\<open>SELECT value FROM settings WHERE key = ?\<close>, read with \<^verbatim>\<open>QueryRow(...).Scan\<close>.\<close>

definition QueryRow_value :: "sql_DB \<Rightarrow> string \<Rightarrow> error + string" where
  "QueryRow_value c key =
     (case fault c Query of
        Some err \<Rightarrow> Inl err
      | None \<Rightarrow>
          (case filter (\<lambda>r. row_key r = key) (rows_settings c) of
             [] \<Rightarrow> Inl sql_ErrNoRows
           | r # _ \<Rightarrow> (case fault c Scan of Some err \<Rightarrow> Inl err | None \<Rightarrow> Inr (row_value r))))"

text \<open>
  The trigger \<^verbatim>\<open>settings_updated_at\<close>: after an update of a row,
  \<^verbatim>\<open>UPDATE settings SET updated_at = CURRENT_TIMESTAMP WHERE key = NEW.key\<close>.
\<close>

definition settings_updated_at :: "nat \<Rightarrow> string \<Rightarrow> table \<Rightarrow> table" where
  "settings_updated_at now key t =
     map (\<lambda>r. if row_key r = key then r\<lparr>updated_at := now\<rparr> else r) t"

text \<open>
  \<^verbatim>\<open>INSERT INTO settings (key, value, created_at, updated_at) VALUES (?, ?, CURRENT_TIMESTAMP,
  CURRENT_TIMESTAMP) ON CONFLICT(key) DO UPDATE SET value = excluded.value, updated_at =
  CURRENT_TIMESTAMP\<close>: a row with the key is updated (and the trigger runs), otherwise a
  row is inserted.
\<close>

definition upsert :: "nat \<Rightarrow> string \<Rightarrow> string \<Rightarrow> table \<Rightarrow> table" where
  "upsert now key val t =
     (if key \<in> set (map row_key t)
      then settings_updated_at now key
             (map (\<lambda>r. if row_key r = key then r\<lparr>row_value := val, updated_at := now\<rparr> else r) t)
      else t @ [\<lparr>row_key = key, row_value = val, created_at = now, updated_at = now\<rparr>])"

definition GetSetting :: "aead \<Rightarrow> DB \<Rightarrow> string \<Rightarrow> error + string" where
  "GetSetting chacha db key =
     (case QueryRow_value (conn db) key of
        Inl err \<Rightarrow>
          if err = sql_ErrNoRows then Inl (fmt_Errorf ''setting not found: %s'' [ArgS key])
          else Inl (fmt_Errorf ''failed to query setting: %w'' [ArgW err])
      | Inr encryptedValue \<Rightarrow>
          (case de_Decrypt chacha (encryption db) encryptedValue of
             Inl err \<Rightarrow> Inl (fmt_Errorf ''failed to decrypt setting value: %w'' [ArgW err])
           | Inr decryptedValue \<Rightarrow> Inr decryptedValue))"

definition SetSetting ::
    "aead \<Rightarrow> bytes \<Rightarrow> nat \<Rightarrow> DB \<Rightarrow> string \<Rightarrow> string \<Rightarrow> error option \<times> DB" where
  "SetSetting chacha rand_Reader now db key val =
     (case de_Encrypt chacha (encryption db) rand_Reader val of
        Inl err \<Rightarrow> (Some (fmt_Errorf ''failed to encrypt setting value: %w'' [ArgW err]), db)
      | Inr encryptedValue \<Rightarrow>
          (case fault (conn db) Exec of
             Some err \<Rightarrow> (Some (fmt_Errorf ''failed to set setting: %w'' [ArgW err]), db)
           | None \<Rightarrow>
               (None,
                db\<lparr>conn := (conn db)\<lparr>rows_settings :=
                      upsert now key encryptedValue (rows_settings (conn db))\<rparr>\<rparr>)))"

text \<open>\<^verbatim>\<open>DELETE FROM settings WHERE key = ?\<close>; \<open>rowsAffected\<close> counts the deleted rows.\<close>

definition DeleteSetting :: "DB \<Rightarrow> string \<Rightarrow> error option \<times> DB" where
  "DeleteSetting db key =
     (case fault (conn db) Exec of
        Some err \<Rightarrow> (Some (fmt_Errorf ''failed to delete setting: %w'' [ArgW err]), db)
      | None \<Rightarrow>
          (let rowsAffected = length (filter (\<lambda>r. row_key r = key) (rows_settings (conn db)));
               db' = db\<lparr>conn := (conn db)\<lparr>rows_settings :=
                       filter (\<lambda>r. row_key r \<noteq> key) (rows_settings (conn db))\<rparr>\<rparr>
           in case fault (conn db) RowsAffected of
                Some err \<Rightarrow> (Some (fmt_Errorf ''failed to get rows affected: %w'' [ArgW err]), db')
              | None \<Rightarrow>
                  if rowsAffected = 0
                  then (Some (fmt_Errorf ''setting not found: %s'' [ArgS key]), db')
                  else (None, db')))"

text \<open>
  The loop of \<^verbatim>\<open>GetAllSettings\<close> over the rows of \<^verbatim>\<open>SELECT key, value FROM settings\<close>:
  a row that does not decrypt is reported as a warning and skipped.
\<close>

fun scanSettings ::
    "aead \<Rightarrow> DB \<Rightarrow> table \<Rightarrow> (string \<rightharpoonup> string) \<Rightarrow> error + (string \<rightharpoonup> string)" where
  "scanSettings chacha db [] settings = Inr settings"
| "scanSettings chacha db (r # rows) settings =
     (case fault (conn db) Scan of
        Some err \<Rightarrow> Inl (fmt_Errorf ''failed to scan setting row: %w'' [ArgW err])
      | None \<Rightarrow>
          (case de_Decrypt chacha (encryption db) (row_value r) of
             Inl err \<Rightarrow> scanSettings chacha db rows settings
           | Inr decryptedValue \<Rightarrow>
               scanSettings chacha db rows (settings(row_key r \<mapsto> decryptedValue))))"

definition GetAllSettings :: "aead \<Rightarrow> DB \<Rightarrow> error + (string \<rightharpoonup> string)" where
  "GetAllSettings chacha db =
     (case fault (conn db) Query of
        Some err \<Rightarrow> Inl (fmt_Errorf ''failed to query settings: %w'' [ArgW err])
      | None \<Rightarrow>
          (case scanSettings chacha db (rows_settings (conn db)) Map.empty of
             Inl err \<Rightarrow> Inl err
           | Inr settings \<Rightarrow>
               (case fault (conn db) RowsErr of
                  Some err \<Rightarrow> Inl (fmt_Errorf ''error iterating settings: %w'' [ArgW err])
                | None \<Rightarrow> Inr settings)))"

text \<open>\<^verbatim>\<open>SELECT EXISTS(SELECT 1 FROM settings WHERE key = ?)\<close>.\<close>

definition SettingExists :: "DB \<Rightarrow> string \<Rightarrow> error + bool" where
  "SettingExists db key =
     (case fault (conn db) Query of
        Some err \<Rightarrow> Inl (fmt_Errorf ''failed to check setting existence: %w'' [ArgW err])
      | None \<Rightarrow>
          (case fault (conn db) Scan of
             Some err \<Rightarrow> Inl (fmt_Errorf ''failed to check setting existence: %w'' [ArgW err])
           | None \<Rightarrow> Inr (key \<in> set (map row_key (rows_settings (conn db))))))"

subsection \<open>Transactions\<close>











section \<open>Stand-ins for the library primitives\<close>

text \<open>
  Concrete values for the parameters, to run the definitions on examples. They have the
  interface of the library primitives and none of their security: \<open>sampleAEAD\<close> appends
  a 16-byte tag made of the nonce and the key and checks it on opening.
\<close>

definition sampleAEAD :: aead where
  "sampleAEAD =
     \<lparr>Seal = (\<lambda>key nonce plaintext. plaintext @ take 16 (nonce @ key)),
      Open = (\<lambda>key nonce ciphertext.
                if 16 \<le> length ciphertext \<and>
                   drop (length ciphertext - 16) ciphertext = take 16 (nonce @ key)
                then Some (take (length ciphertext - 16) ciphertext)
                else None)\<rparr>"

definition samplePBKDF2 :: pbkdf2 where
  "samplePBKDF2 password salt iter keyLen h = take keyLen (salt @ replicate keyLen (CHR ''k''))"

definition sampleSum256 :: "bytes \<Rightarrow> bytes" where
  "sampleSum256 x = take 32 (x @ replicate 32 (CHR ''z''))"

definition sampleKey :: bytes where
  "sampleKey = ''0123456789abcdef0123456789abcdef''"

definition sampleDB :: DB where
  "sampleDB =
     \<lparr>conn = \<lparr>rows_settings = [], tx = None, fault = (\<lambda>_. None)\<rparr>,
      encryption = \<lparr>serverKey = sampleKey\<rparr>\<rparr>"

definition sampleRows :: table where
  "sampleRows =
     [\<lparr>row_key = ''good'', row_value = ''YWJjZGVmZ2hpamtsaGVsbG9hYmNkZWZnaGlqa2wwMTIz'',
       created_at = 1, updated_at = 1\<rparr>,
      \<lparr>row_key = ''bad'', row_value = ''!!!!'', created_at = 2, updated_at = 2\<rparr>]"







definition sampleHost :: host where
  "sampleHost =
     \<lparr>cachedMachineID = [],
      persisted = Inl (os_Error ''not found''),
      dirError = None,
      writeError = None,
      windowsProductID = Inr ''00330-80000-00000-AA123'',
      cpuInfo = Inr ''cpu'',
      etc_machine_id = Inl (os_Error ''not found''),
      dbus_machine_id = Inl (os_Error ''not found''),
      net_Interfaces =
        Inr [\<lparr>flagLoopback = True, flagUp = True, hardwareAddr = []\<rparr>,
             \<lparr>flagLoopback = False, flagUp = True, hardwareAddr = ''00:11:22:33:44:55''\<rparr>],
      os_Hostname = Inr ''pos-1''\<rparr>"

section \<open>Base64: decoding inverts encoding\<close>

lemma distinct_encodeStd: "distinct encodeStd"
  unfolding encodeStd_def by simp

lemma length_encodeStd: "length encodeStd = 64"
  unfolding encodeStd_def by simp

lemma indexOf_nth: "distinct xs \<Longrightarrow> i < length xs \<Longrightarrow> indexOf (xs ! i) xs = Some i"
proof (induction xs arbitrary: i)
  case Nil
  then show ?case by simp
next
  case (Cons y ys)
  show ?case
  proof (cases i)
    case 0
    then show ?thesis by simp
  next
    case (Suc j)
    with Cons.prems have "ys ! j \<noteq> y" "j < length ys" "distinct ys" by auto
    with Cons.IH [of j] Suc show ?thesis by simp
  qed
qed

lemma decodeMap_encodeStd: "decodeMap (encodeStd ! (i mod 64)) = Some (i mod 64)"
  unfolding decodeMap_def
  by (rule indexOf_nth) (simp_all add: distinct_encodeStd length_encodeStd)

lemma decodeMap_padChar: "decodeMap padChar = None"
  by (simp add: decodeMap_def padChar_def encodeStd_def)

lemma padChar_not_newline: "\<not> isNewline padChar"
  by (simp add: isNewline_def padChar_def)

lemma mod_base: "c < n \<Longrightarrow> (x * n + c) mod n = (c::nat)"
  by simp

lemma div_base: "c < n \<Longrightarrow> (x * n + c) div n = (x::nat)"
  by simp

lemma sextets:
  fixes v :: nat
  assumes "v < 16777216"
  shows "(v div 262144 mod 64) * 262144 + (v div 4096 mod 64) * 4096
         + (v div 64 mod 64) * 64 + v mod 64 = v"
proof -
  define q1 where "q1 = v div 64"
  define q2 where "q2 = q1 div 64"
  define q3 where "q3 = q2 div 64"
  have a: "v div 4096 = q2" by (simp add: q1_def q2_def div_mult2_eq)
  have b: "v div 262144 = q3" by (simp add: q1_def q2_def q3_def div_mult2_eq)
  have c: "q3 mod 64 = q3" using assms by (simp add: q1_def q2_def q3_def div_mult2_eq)
  have 1: "v = q1 * 64 + v mod 64" by (simp add: q1_def)
  have 2: "q1 = q2 * 64 + q1 mod 64" by (simp add: q2_def)
  have 3: "q2 = q3 * 64 + q2 mod 64" by (simp add: q3_def)
  have "q3 * 262144 + (q2 mod 64) * 4096 + (q1 mod 64) * 64 + v mod 64 = v"
    using 1 2 3 by linarith
  then show ?thesis by (simp only: a b c q1_def [symmetric])
qed

lemma val_bytes:
  fixes a b c :: nat
  assumes "a < 256" "b < 256" "c < 256"
  defines "v \<equiv> a * 65536 + b * 256 + c"
  shows "v div 65536 mod 256 = a" and "v div 256 mod 256 = b" and "v mod 256 = c"
    and "v < 16777216"
proof -
  have e: "v = (a * 256 + b) * 256 + c" by (simp add: v_def)
  show "v mod 256 = c" unfolding e using assms(3) by (rule mod_base)
  have d1: "v div 256 = a * 256 + b" unfolding e using assms(3) by (rule div_base)
  have "v div 65536 = v div 256 div 256" by (simp add: div_mult2_eq)
  also have "\<dots> = a" unfolding d1 using assms(2) by (rule div_base)
  finally have d2: "v div 65536 = a" .
  have m1: "(a * 256 + b) mod 256 = b" using assms(2) by (rule mod_base)
  show "v div 65536 mod 256 = a" using d2 assms(1) by simp
  show "v div 256 mod 256 = b" using d1 m1 by simp
  show "v < 16777216" using assms(1-3) by (simp add: v_def)
qed

lemma quantumBytes_full:
  fixes a b c :: char
  assumes v: "v = of_char a * 65536 + of_char b * 256 + of_char c"
  shows "quantumBytes [v div 262144 mod 64, v div 4096 mod 64, v div 64 mod 64, v mod 64]
         = [a, b, c]"
proof -
  have lt: "of_char a < (256::nat)" "of_char b < (256::nat)" "of_char c < (256::nat)"
    by (simp_all add: nat_of_char_less_256)
  note vb = val_bytes [OF lt, folded v]
  have s: "(v div 262144 mod 64) * 262144 + (v div 4096 mod 64) * 4096
         + (v div 64 mod 64) * 64 + v mod 64 = v"
    using vb(4) by (rule sextets)
  have "char_of (v div 65536) = (char_of (v div 65536 mod 256) :: char)"
    "char_of (v div 256) = (char_of (v div 256 mod 256) :: char)"
    "char_of v = (char_of (v mod 256) :: char)"
    by (simp_all only: char_of_mod_256)
  then have "[char_of (v div 65536), char_of (v div 256), char_of v] = [a, b, c]"
    by (simp only: vb char_of_char)
  then show ?thesis
    by (simp add: quantumBytes_def Let_def s)
qed

lemma quantumBytes_two:
  fixes a b :: char
  assumes v: "v = of_char a * 65536 + of_char b * 256"
  shows "quantumBytes [v div 262144 mod 64, v div 4096 mod 64, v div 64 mod 64] = [a, b]"
proof -
  have v0: "v = of_char a * 65536 + of_char b * 256 + of_char (CHR 0x00)"
    by (simp add: v)
  have m: "v mod 64 = 0" by (simp add: v)
  from quantumBytes_full [OF v0]
  have "quantumBytes [v div 262144 mod 64, v div 4096 mod 64, v div 64 mod 64, 0]
        = [a, b, CHR 0x00]" by (simp only: m)
  then show ?thesis by (simp add: quantumBytes_def Let_def)
qed

lemma quantumBytes_one:
  fixes a :: char
  assumes v: "v = of_char a * 65536"
  shows "quantumBytes [v div 262144 mod 64, v div 4096 mod 64] = [a]"
proof -
  have v0: "v = of_char a * 65536 + of_char (CHR 0x00) * 256"
    by (simp add: v)
  have m: "v div 64 mod 64 = 0" by (simp add: v)
  from quantumBytes_two [OF v0]
  have "quantumBytes [v div 262144 mod 64, v div 4096 mod 64, 0] = [a, CHR 0x00]"
    by (simp only: m)
  then show ?thesis by (simp add: quantumBytes_def Let_def)
qed

lemma b64Decode_b64Encode: "b64Decode [] (b64Encode src) = Inr src"
proof (induction src rule: b64Encode.induct)
  case 1
  show ?case by simp
next
  case (2 a)
  define v :: nat where "v = of_char a * 65536"
  have "b64Encode [a] = [encodeStd ! (v div 262144 mod 64), encodeStd ! (v div 4096 mod 64),
         padChar, padChar]"
    by (simp only: b64Encode.simps Let_def v_def)
  then show ?case
    by (simp add: decodeMap_encodeStd decodeMap_padChar padChar_not_newline
        quantumBytes_one [OF v_def])
next
  case (3 a b)
  define v :: nat where "v = of_char a * 65536 + of_char b * 256"
  have "b64Encode [a, b] = [encodeStd ! (v div 262144 mod 64),
         encodeStd ! (v div 4096 mod 64), encodeStd ! (v div 64 mod 64), padChar]"
    by (simp only: b64Encode.simps Let_def v_def)
  then show ?case
    by (simp add: decodeMap_encodeStd decodeMap_padChar padChar_not_newline
        quantumBytes_two [OF v_def])
next
  case (4 a b c src)
  define v :: nat where "v = of_char a * 65536 + of_char b * 256 + of_char c"
  have "b64Encode (a # b # c # src) = [encodeStd ! (v div 262144 mod 64),
         encodeStd ! (v div 4096 mod 64), encodeStd ! (v div 64 mod 64),
         encodeStd ! (v mod 64)] @ b64Encode src"
    by (simp only: b64Encode.simps Let_def v_def)
  with 4 show ?case
    by (simp add: decodeMap_encodeStd quantumBytes_full [OF v_def])
qed

lemma DecodeString_EncodeToString: "DecodeString (EncodeToString src) = Inr src"
  by (simp add: DecodeString_def EncodeToString_def b64Decode_b64Encode)

section \<open>Server keys in transport encoding\<close>

text \<open>
  C10. A 32-byte key survives \<open>ServerKeyToBase64\<close> followed by \<open>ServerKeyFromBase64\<close>, and a
  base64 text that decodes to any other number of bytes is refused with the length error.
\<close>

theorem ServerKeyFromBase64_ServerKeyToBase64:
  "(length K = 32 \<longrightarrow> ServerKeyFromBase64 (ServerKeyToBase64 K) = Inr K) \<and>
   (DecodeString s = Inr key \<and> length key \<noteq> 32 \<longrightarrow>
      ServerKeyFromBase64 s =
        Inl (fmt_Errorf ''invalid server key length: expected %d, got %d''
               [ArgD 32, ArgD (length key)]))"
  by (simp add: ServerKeyFromBase64_def ServerKeyToBase64_def DecodeString_EncodeToString
      chacha20KeySize_def)

lemma DecodeString_abcdef: "DecodeString ''YWJjZGVm'' = Inr ''abcdef''"
  by (simp add: DecodeString_def decodeMap_def encodeStd_def quantumBytes_def Let_def
      char_of_eq_iff)

theorem ServerKeyFromBase64_ServerKeyToBase64_witness:
  "ServerKeyFromBase64 (ServerKeyToBase64 sampleKey) = Inr sampleKey \<and>
   ServerKeyFromBase64 ''YWJjZGVm'' =
     Inl (fmt_Errorf ''invalid server key length: expected %d, got %d'' [ArgD 32, ArgD 6])"
  using ServerKeyFromBase64_ServerKeyToBase64 [of sampleKey "''YWJjZGVm''" "''abcdef''"]
  by (simp add: sampleKey_def DecodeString_abcdef)

section \<open>Key derivation of the config cipher\<close>

text \<open>
  C4. For a non-empty machine id the key of the config cipher is PBKDF2 of the fixed secret
  (password) and the machine id (salt) with 10000 iterations, 32 bytes of output and
  SHA3-256; for the empty machine id the construction fails.
\<close>

theorem NewConfigEncryption_key:
  "(machineID \<noteq> [] \<longrightarrow>
      NewConfigEncryption pbkdf2_Key machineID =
        Inr \<lparr>ce_machineID = machineID,
             ce_key = pbkdf2_Key ''YourSuperSecretHardcodedKeyHere-ChangeInProduction!''
                        machineID 10000 32 sha3_New256\<rparr>) \<and>
   NewConfigEncryption pbkdf2_Key [] = Inl (errors_New ''machine ID cannot be empty'')"
  by (simp add: NewConfigEncryption_def hardcodedEncryptionKey_def pbkdf2Iterations_def
      aes256KeySize_def)

theorem NewConfigEncryption_key_witness:
  "NewConfigEncryption samplePBKDF2 ''machine-1'' =
     Inr \<lparr>ce_machineID = ''machine-1'',
          ce_key = samplePBKDF2 ''YourSuperSecretHardcodedKeyHere-ChangeInProduction!''
                     ''machine-1'' 10000 32 sha3_New256\<rparr> \<and>
   NewConfigEncryption samplePBKDF2 [] = Inl (errors_New ''machine ID cannot be empty'')"
  using NewConfigEncryption_key [of "''machine-1''" samplePBKDF2] by simp

section \<open>Sealing and opening\<close>

lemma ce_Encrypt_ok:
  assumes "length (ce_key ce) = 32" and "12 \<le> length rand_Reader"
  shows "ce_Encrypt gcm ce rand_Reader P =
           Inr (EncodeToString (take 12 rand_Reader
                  @ Seal gcm (ce_key ce) (take 12 rand_Reader) P))"
  using assms by (simp add: ce_Encrypt_def aes_NewCipher_def io_ReadFull_def gcm_NonceSize_def)

lemma ce_Decrypt_envelope:
  assumes "length (ce_key ce) = 32" and "length nonce = 12"
  shows "ce_Decrypt gcm ce (EncodeToString (nonce @ sealed)) =
           (case Open gcm (ce_key ce) nonce sealed of
              None \<Rightarrow> Inl (fmt_Errorf ''failed to decrypt: %w'' [ArgW gcm_errOpen])
            | Some plaintext \<Rightarrow> Inr plaintext)"
  using assms
  by (simp add: ce_Decrypt_def DecodeString_EncodeToString aes_NewCipher_def gcm_NonceSize_def)

lemma de_Encrypt_ok:
  assumes "length (serverKey de) = 32" and "12 \<le> length rand_Reader"
  shows "de_Encrypt chacha de rand_Reader P =
           Inr (EncodeToString (take 12 rand_Reader
                  @ Seal chacha (serverKey de) (take 12 rand_Reader) P))"
  using assms
  by (simp add: de_Encrypt_def chacha20poly1305_New_def chacha20poly1305_KeySize_def
      io_ReadFull_def chacha20poly1305_NonceSize_def)

lemma de_Decrypt_envelope:
  assumes "length (serverKey de) = 32" and "length nonce = 12"
  shows "de_Decrypt chacha de (EncodeToString (nonce @ sealed)) =
           (case Open chacha (serverKey de) nonce sealed of
              None \<Rightarrow> Inl (fmt_Errorf ''failed to decrypt: %w'' [ArgW chacha20poly1305_ErrOpen])
            | Some plaintext \<Rightarrow> Inr plaintext)"
  using assms
  by (simp add: de_Decrypt_def DecodeString_EncodeToString chacha20poly1305_New_def
      chacha20poly1305_KeySize_def chacha20poly1305_NonceSize_def)

lemma NewDatabaseEncryption_Inr:
  "NewDatabaseEncryption key = Inr de \<longleftrightarrow> length key = 32 \<and> de = \<lparr>serverKey = key\<rparr>"
  by (auto simp add: NewDatabaseEncryption_def chacha20KeySize_def)

lemma sampleAEAD_Open_Seal:
  "12 \<le> length nonce \<Longrightarrow> 4 \<le> length key \<Longrightarrow>
   Open sampleAEAD key nonce (Seal sampleAEAD key nonce P) = Some P"
  by (simp add: sampleAEAD_def)

text \<open>
  C2. Under one cipher instance, made by its constructor, decrypting what \<open>Encrypt\<close>
  returned for \<open>P\<close> gives \<open>P\<close>, for every byte string \<open>P\<close> and for both ciphers. The random
  source has to deliver the 12 bytes of the nonce, PBKDF2 the 32 bytes it is asked for, and
  the AEAD of the library has to open what it sealed under that key and nonce.
\<close>

theorem Decrypt_Encrypt:
  "(NewConfigEncryption pbkdf2_Key machineID = Inr ce \<and> length (ce_key ce) = 32 \<and>
    12 \<le> length rand_Reader \<and>
    Open gcm (ce_key ce) (take 12 rand_Reader) (Seal gcm (ce_key ce) (take 12 rand_Reader) P)
      = Some P \<longrightarrow>
    (\<exists>envelope. ce_Encrypt gcm ce rand_Reader P = Inr envelope \<and>
                ce_Decrypt gcm ce envelope = Inr P)) \<and>
   (NewDatabaseEncryption key = Inr de \<and>
    12 \<le> length rand_Reader \<and>
    Open chacha key (take 12 rand_Reader) (Seal chacha key (take 12 rand_Reader) P)
      = Some P \<longrightarrow>
    (\<exists>envelope. de_Encrypt chacha de rand_Reader P = Inr envelope \<and>
                de_Decrypt chacha de envelope = Inr P))"
proof (intro conjI impI)
  assume h: "NewConfigEncryption pbkdf2_Key machineID = Inr ce \<and> length (ce_key ce) = 32 \<and>
    12 \<le> length rand_Reader \<and>
    Open gcm (ce_key ce) (take 12 rand_Reader) (Seal gcm (ce_key ce) (take 12 rand_Reader) P)
      = Some P"
  then have k: "length (ce_key ce) = 32" and r: "12 \<le> length rand_Reader" by simp_all
  from r have n: "length (take 12 rand_Reader) = 12" by simp
  show "\<exists>envelope. ce_Encrypt gcm ce rand_Reader P = Inr envelope \<and>
                   ce_Decrypt gcm ce envelope = Inr P"
    using h by (simp add: ce_Encrypt_ok [OF k r] ce_Decrypt_envelope [OF k n])
next
  assume h: "NewDatabaseEncryption key = Inr de \<and>
    12 \<le> length rand_Reader \<and>
    Open chacha key (take 12 rand_Reader) (Seal chacha key (take 12 rand_Reader) P) = Some P"
  then have k: "length (serverKey de) = 32" and sk: "serverKey de = key"
    and r: "12 \<le> length rand_Reader"
    by (auto simp add: NewDatabaseEncryption_Inr)
  from r have n: "length (take 12 rand_Reader) = 12" by simp
  show "\<exists>envelope. de_Encrypt chacha de rand_Reader P = Inr envelope \<and>
                   de_Decrypt chacha de envelope = Inr P"
    using h by (simp add: de_Encrypt_ok [OF k r] de_Decrypt_envelope [OF k n] sk)
qed

theorem Decrypt_Encrypt_witness:
  "(\<exists>envelope.
      ce_Encrypt sampleAEAD
        \<lparr>ce_machineID = ''machine-1'',
         ce_key = samplePBKDF2 hardcodedEncryptionKey ''machine-1'' 10000 32 sha3_New256\<rparr>
        ''abcdefghijklmnop'' ''hello'' = Inr envelope \<and>
      ce_Decrypt sampleAEAD
        \<lparr>ce_machineID = ''machine-1'',
         ce_key = samplePBKDF2 hardcodedEncryptionKey ''machine-1'' 10000 32 sha3_New256\<rparr>
        envelope = Inr ''hello'') \<and>
   (\<exists>envelope.
      de_Encrypt sampleAEAD \<lparr>serverKey = sampleKey\<rparr> ''abcdefghijklmnop'' ''hello'' = Inr envelope \<and>
      de_Decrypt sampleAEAD \<lparr>serverKey = sampleKey\<rparr> envelope = Inr ''hello'')"
  using Decrypt_Encrypt [of samplePBKDF2 "''machine-1''"
      "\<lparr>ce_machineID = ''machine-1'',
        ce_key = samplePBKDF2 hardcodedEncryptionKey ''machine-1'' 10000 32 sha3_New256\<rparr>"
      "''abcdefghijklmnop''" sampleAEAD "''hello''" sampleKey "\<lparr>serverKey = sampleKey\<rparr>" sampleAEAD]
  by (simp add: NewConfigEncryption_def NewDatabaseEncryption_def pbkdf2Iterations_def
      aes256KeySize_def chacha20KeySize_def sampleKey_def samplePBKDF2_def sampleAEAD_def)

section \<open>Failures of opening\<close>

lemma DecodeString_bangs: "DecodeString ''!!!!'' = Inl CorruptInputError"
  by (simp add: DecodeString_def decodeMap_def encodeStd_def isNewline_def padChar_def)

lemma DecodeString_abc: "DecodeString ''YWJj'' = Inr ''abc''"
  by (simp add: DecodeString_def decodeMap_def encodeStd_def quantumBytes_def Let_def
      char_of_eq_iff)

lemma DecodeString_32: 
  "DecodeString ''YWJjZGVmZ2hpamtsaGVsbG9hYmNkZWZnaGlqa2xYWFhY''
     = Inr ''abcdefghijklhelloabcdefghijklXXXX''"
  by (simp add: DecodeString_def decodeMap_def encodeStd_def quantumBytes_def Let_def
      char_of_eq_iff)

text \<open>
  C5, as the claim states it, fails: a malformed envelope, a truncated envelope and an
  envelope the AEAD rejects give three different errors, which a caller can tell apart.
  Here the key is the value \<open>sampleKey\<close>. The first two errors arise before the AEAD is
  called; the third envelope carries the tag of another key.
\<close>

theorem Decrypt_errors_differ:
  "de_Decrypt sampleAEAD \<lparr>serverKey = sampleKey\<rparr> ''!!!!'' =
     Inl (fmt_Errorf ''failed to decode base64: %w'' [ArgW CorruptInputError]) \<and>
   de_Decrypt sampleAEAD \<lparr>serverKey = sampleKey\<rparr> ''YWJj'' = Inl ErrInvalidCiphertext \<and>
   de_Decrypt sampleAEAD \<lparr>serverKey = sampleKey\<rparr>
       ''YWJjZGVmZ2hpamtsaGVsbG9hYmNkZWZnaGlqa2xYWFhY'' =
     Inl (fmt_Errorf ''failed to decrypt: %w'' [ArgW chacha20poly1305_ErrOpen]) \<and>
   de_Decrypt sampleAEAD \<lparr>serverKey = sampleKey\<rparr> ''!!!!'' \<noteq>
     de_Decrypt sampleAEAD \<lparr>serverKey = sampleKey\<rparr> ''YWJj'' \<and>
   de_Decrypt sampleAEAD \<lparr>serverKey = sampleKey\<rparr> ''YWJj'' \<noteq>
     de_Decrypt sampleAEAD \<lparr>serverKey = sampleKey\<rparr>
       ''YWJjZGVmZ2hpamtsaGVsbG9hYmNkZWZnaGlqa2xYWFhY''"
  by (simp add: de_Decrypt_def DecodeString_bangs DecodeString_abc DecodeString_32
      chacha20poly1305_New_def chacha20poly1305_KeySize_def chacha20poly1305_NonceSize_def
      sampleKey_def sampleAEAD_def ErrInvalidCiphertext_def)

text \<open>
  C5, amended. Every call of \<open>Decrypt\<close> on an invalid envelope fails and returns no
  plaintext, and the error tells the cause: the wrapped base64 error for a malformed
  envelope, \<open>ErrInvalidCiphertext\<close> for an envelope shorter than the 12-byte nonce, and the
  wrapped authentication error of the AEAD when it rejects the envelope (wrong key,
  tampering, an envelope of the other cipher). A plaintext is returned only when the AEAD
  opens the envelope. The cipher instances have keys of 32 bytes.
\<close>

theorem Decrypt_failures:
  "(length (ce_key ce) = 32 \<and> length (serverKey de) = 32 \<longrightarrow>
    (DecodeString s = Inl err \<longrightarrow>
       ce_Decrypt gcm ce s = Inl (fmt_Errorf ''failed to decode base64: %w'' [ArgW err]) \<and>
       de_Decrypt chacha de s = Inl (fmt_Errorf ''failed to decode base64: %w'' [ArgW err])) \<and>
    (DecodeString s = Inr ciphertext \<and> length ciphertext < 12 \<longrightarrow>
       ce_Decrypt gcm ce s = Inl ErrInvalidCiphertext \<and>
       de_Decrypt chacha de s = Inl ErrInvalidCiphertext) \<and>
    (DecodeString s = Inr ciphertext \<and> 12 \<le> length ciphertext \<and>
     Open gcm (ce_key ce) (take 12 ciphertext) (drop 12 ciphertext) = None \<longrightarrow>
       ce_Decrypt gcm ce s = Inl (fmt_Errorf ''failed to decrypt: %w'' [ArgW gcm_errOpen])) \<and>
    (DecodeString s = Inr ciphertext \<and> 12 \<le> length ciphertext \<and>
     Open chacha (serverKey de) (take 12 ciphertext) (drop 12 ciphertext) = None \<longrightarrow>
       de_Decrypt chacha de s =
         Inl (fmt_Errorf ''failed to decrypt: %w'' [ArgW chacha20poly1305_ErrOpen])) \<and>
    (ce_Decrypt gcm ce s = Inr P \<longrightarrow>
       (\<exists>c. DecodeString s = Inr c \<and> 12 \<le> length c \<and>
            Open gcm (ce_key ce) (take 12 c) (drop 12 c) = Some P)) \<and>
    (de_Decrypt chacha de s = Inr P \<longrightarrow>
       (\<exists>c. DecodeString s = Inr c \<and> 12 \<le> length c \<and>
            Open chacha (serverKey de) (take 12 c) (drop 12 c) = Some P)))"
  by (auto simp add: ce_Decrypt_def de_Decrypt_def aes_NewCipher_def gcm_NonceSize_def
      chacha20poly1305_New_def chacha20poly1305_KeySize_def chacha20poly1305_NonceSize_def
      split: sum.splits option.splits if_splits)

theorem Decrypt_failures_witness:
  "de_Decrypt sampleAEAD \<lparr>serverKey = sampleKey\<rparr> ''!!!!'' =
     Inl (fmt_Errorf ''failed to decode base64: %w'' [ArgW CorruptInputError]) \<and>
   ce_Decrypt sampleAEAD \<lparr>ce_machineID = ''m'', ce_key = sampleKey\<rparr> ''YWJj'' =
     Inl ErrInvalidCiphertext \<and>
   de_Decrypt sampleAEAD \<lparr>serverKey = sampleKey\<rparr>
       ''YWJjZGVmZ2hpamtsaGVsbG9hYmNkZWZnaGlqa2xYWFhY'' =
     Inl (fmt_Errorf ''failed to decrypt: %w'' [ArgW chacha20poly1305_ErrOpen])"
proof -
  let ?ce = "\<lparr>ce_machineID = ''m'', ce_key = sampleKey\<rparr>"
  let ?de = "\<lparr>serverKey = sampleKey\<rparr>"
  have k: "length (ce_key ?ce) = 32 \<and> length (serverKey ?de) = 32"
    by (simp add: sampleKey_def)
  have rejected: "Open sampleAEAD (serverKey ?de) (take 12 ''abcdefghijklhelloabcdefghijklXXXX'')
      (drop 12 ''abcdefghijklhelloabcdefghijklXXXX'') = None"
    by (simp add: sampleAEAD_def sampleKey_def)
  from k DecodeString_bangs
    Decrypt_failures [where ce = ?ce and de = ?de and s = "''!!!!''" and err = CorruptInputError
      and chacha = sampleAEAD and gcm = sampleAEAD and ciphertext = "[]" and P = "[]"]
  have 1: "de_Decrypt sampleAEAD ?de ''!!!!'' =
     Inl (fmt_Errorf ''failed to decode base64: %w'' [ArgW CorruptInputError])"
    by blast
  from k DecodeString_abc
    Decrypt_failures [where ce = ?ce and de = ?de and s = "''YWJj''" and ciphertext = "''abc''"
      and chacha = sampleAEAD and gcm = sampleAEAD and err = CorruptInputError and P = "[]"]
  have 2: "ce_Decrypt sampleAEAD ?ce ''YWJj'' = Inl ErrInvalidCiphertext"
    by simp
  from k DecodeString_32 rejected
    Decrypt_failures [where ce = ?ce and de = ?de
      and s = "''YWJjZGVmZ2hpamtsaGVsbG9hYmNkZWZnaGlqa2xYWFhY''"
      and ciphertext = "''abcdefghijklhelloabcdefghijklXXXX''"
      and chacha = sampleAEAD and gcm = sampleAEAD and err = CorruptInputError and P = "[]"]
  have 3: "de_Decrypt sampleAEAD ?de ''YWJjZGVmZ2hpamtsaGVsbG9hYmNkZWZnaGlqa2xYWFhY'' =
     Inl (fmt_Errorf ''failed to decrypt: %w'' [ArgW chacha20poly1305_ErrOpen])"
    by simp
  from 1 2 3 show ?thesis by simp
qed

section \<open>The machine id\<close>

lemma length_hex_EncodeToString: "length (hex_EncodeToString src) = 2 * length src"
  by (induction src) (simp_all add: hex_EncodeToString_def)

lemma set_hex_EncodeToString: "c \<in> set (hex_EncodeToString src) \<Longrightarrow> c \<in> set hextable"
proof -
  have n: "hextable ! i \<in> set hextable" if "i < 16" for i
    using that by (intro nth_mem) (simp add: hextable_def)
  have d: "of_char v div 16 < (16::nat)" for v :: char
  proof -
    have "of_char v < (16 * 16 :: nat)" using nat_of_char_less_256 [of v] by simp
    then show ?thesis by (rule less_mult_imp_div_less)
  qed
  assume "c \<in> set (hex_EncodeToString src)"
  then obtain v where "c = hextable ! (of_char v div 16) \<or> c = hextable ! (of_char v mod 16)"
    by (auto simp add: hex_EncodeToString_def)
  then show ?thesis using n [OF d [of v]] n [of "of_char v mod 16"] by auto
qed

lemma hexFingerprint_iff:
  "hexFingerprint machineID \<longleftrightarrow> length machineID = 64 \<and> set machineID \<subseteq> set hextable"
  unfolding hexFingerprint_def hextable_def by blast

lemma generateMachineID_hex:
  assumes "\<forall>x. length (Sum256 x) = 32"
    and "generateMachineID TrimSpace Sum256 os h = Inr machineID"
  shows "hexFingerprint machineID"
proof -
  from assms(2) obtain x where m: "machineID = hex_EncodeToString (Sum256 x)"
    by (auto simp add: generateMachineID_def Let_def split: if_splits)
  from assms(1) have "length (Sum256 x) = 32" by simp
  then have "length machineID = 64"
    by (simp add: m length_hex_EncodeToString)
  moreover have "set machineID \<subseteq> set hextable"
    unfolding m using set_hex_EncodeToString by blast
  ultimately show ?thesis by (simp only: hexFingerprint_iff)
qed

lemma hexFingerprint_nonempty: "hexFingerprint machineID \<Longrightarrow> machineID \<noteq> []"
  unfolding hexFingerprint_iff by auto

text \<open>
  C3. The code at an input where the claim fails. The registry value (on Linux, the file)
  holds \<open>abc\<close> and the cache is empty: \<open>GetMachineID\<close> checks only that the stored value is
  not empty and returns it as the machine id, a string of 3 characters, where the claim,
  the check \<^verbatim>\<open>len(id1) != 64\<close> of \<^verbatim>\<open>TestGetMachineID\<close> and the derived path give 64
  hexadecimal characters.
\<close>

theorem GetMachineID_returns_stored_value:
  "fst (GetMachineID id sampleSum256 windows (sampleHost\<lparr>persisted := Inr ''abc''\<rparr>)) = Inr ''abc''
   \<and> length ''abc'' \<noteq> 64"
  by (simp add: GetMachineID_def readMachineIDFromRegistry_def sampleHost_def Let_def)

text \<open>
  The rest of the claim holds. The next call on the host the first one left returns the
  same string, also when the first call read it from the store; a cached or stored value
  that is not empty is returned as it is; and a call that finds neither returns a freshly
  derived string of 64 hexadecimal characters.
\<close>

lemma GetMachineID_stable:
  assumes "\<forall>x. length (Sum256 x) = 32"
    and "GetMachineID TrimSpace Sum256 os h = (Inr machineID, h')"
  shows "fst (GetMachineID TrimSpace Sum256 os h') = Inr machineID \<and>
         (cachedMachineID h \<noteq> [] \<longrightarrow> machineID = cachedMachineID h) \<and>
         (cachedMachineID h = [] \<and> readMachineIDFromRegistry TrimSpace os h = Inr stored \<and>
          stored \<noteq> [] \<longrightarrow> machineID = stored) \<and>
         (cachedMachineID h = [] \<and>
          (\<forall>stored. readMachineIDFromRegistry TrimSpace os h = Inr stored \<longrightarrow> stored = []) \<longrightarrow>
            hexFingerprint machineID \<and>
            generateMachineID TrimSpace Sum256 os h = Inr machineID)"
proof -
  let ?r = "readMachineIDFromRegistry TrimSpace os h"
  note gen = generateMachineID_hex [OF assms(1)]
  consider (cached) "cachedMachineID h \<noteq> []"
    | (stored) "cachedMachineID h = []" "\<not> isl ?r" "projr ?r \<noteq> []"
    | (derived) "cachedMachineID h = []" "isl ?r \<or> projr ?r = []"
    by blast
  then show ?thesis
  proof cases
    case cached
    with assms(2) have "machineID = cachedMachineID h" "h' = h"
      by (auto simp add: GetMachineID_def)
    with cached show ?thesis by (simp add: GetMachineID_def)
  next
    case stored
    then obtain v where v: "?r = Inr v" "v \<noteq> []" by (cases ?r) auto
    with stored assms(2) have "machineID = v" "h' = h\<lparr>cachedMachineID := v\<rparr>"
      by (auto simp add: GetMachineID_def Let_def)
    with stored v show ?thesis by (auto simp add: GetMachineID_def)
  next
    case derived
    with assms(2) have g: "generateMachineID TrimSpace Sum256 os h = Inr machineID"
      and c: "cachedMachineID h' = machineID"
      by (auto simp add: GetMachineID_def Let_def split: sum.splits)
    from gen [OF g] have wf: "hexFingerprint machineID" .
    then have "machineID \<noteq> []" by (rule hexFingerprint_nonempty)
    with c have "fst (GetMachineID TrimSpace Sum256 os h') = Inr machineID"
      by (simp add: GetMachineID_def)
    moreover from derived have "?r = Inr stored \<Longrightarrow> stored = []" for stored
      by auto
    ultimately show ?thesis using derived wf g by auto
  qed
qed

lemma length_sampleSum256: "\<forall>x. length (sampleSum256 x) = 32"
  by (auto simp add: sampleSum256_def)

lemma GetMachineID_sampleHost:
  "GetMachineID id sampleSum256 windows sampleHost =
     (Inr ''30303333302d38303030302d30303030302d41413132337c6370757c30303a31'',
      sampleHost\<lparr>persisted :=
          Inr ''30303333302d38303030302d30303030302d41413132337c6370757c30303a31'',
        cachedMachineID :=
          ''30303333302d38303030302d30303030302d41413132337c6370757c30303a31''\<rparr>)"
  by (simp add: GetMachineID_def readMachineIDFromRegistry_def generateMachineID_def
      platformSpecificID_def getPrimaryMACAddress_def saveMachineIDToRegistry_def
      sampleHost_def sampleSum256_def hex_EncodeToString_def hextable_def Let_def)

lemma GetMachineID_stable_sample:
  "fst (GetMachineID id sampleSum256 windows
         (sampleHost\<lparr>persisted :=
              Inr ''30303333302d38303030302d30303030302d41413132337c6370757c30303a31'',
            cachedMachineID :=
              ''30303333302d38303030302d30303030302d41413132337c6370757c30303a31''\<rparr>))
     = Inr ''30303333302d38303030302d30303030302d41413132337c6370757c30303a31'' \<and>
   hexFingerprint ''30303333302d38303030302d30303030302d41413132337c6370757c30303a31''"
  using GetMachineID_stable [OF length_sampleSum256 GetMachineID_sampleHost]
  by (simp add: sampleHost_def readMachineIDFromRegistry_def)

section \<open>The settings table\<close>

lemma map_row_key_upsert:
  "map row_key (upsert now k v t) =
     (if k \<in> set (map row_key t) then map row_key t else map row_key t @ [k])"
  by (induction t) (auto simp add: upsert_def settings_updated_at_def)

lemma primaryKey_upsert: "primaryKey t \<Longrightarrow> primaryKey (upsert now k v t)"
  by (simp add: primaryKey_def map_row_key_upsert)

lemma primaryKey_unique_row:
  "primaryKey t \<Longrightarrow> r \<in> set t \<Longrightarrow> filter (\<lambda>r'. row_key r' = row_key r) t = [r]"
proof (induction t)
  case Nil
  then show ?case by simp
next
  case (Cons x t)
  from Cons.prems(1) have d: "\<forall>r' \<in> set t. row_key r' \<noteq> row_key x" and pk: "primaryKey t"
    by (auto simp add: primaryKey_def image_iff)
  show ?case
  proof (cases "r = x")
    case True
    from d have "filter (\<lambda>r'. row_key r' = row_key x) t = []"
      by (auto simp add: filter_empty_conv)
    with True show ?thesis by simp
  next
    case False
    with Cons.prems(2) have "r \<in> set t" by simp
    with d have "row_key x \<noteq> row_key r" by auto
    with Cons.IH [OF pk \<open>r \<in> set t\<close>] show ?thesis by simp
  qed
qed

text \<open>After an upsert the table has exactly one row with the key: the new value, refreshed.\<close>

lemma filter_upsert:
  assumes "primaryKey t"
  shows "\<exists>c. filter (\<lambda>r. row_key r = k) (upsert now k v t) =
               [\<lparr>row_key = k, row_value = v, created_at = c, updated_at = now\<rparr>]"
proof (cases "k \<in> set (map row_key t)")
  case False
  then have "filter (\<lambda>r. row_key r = k) t = []"
    by (auto simp add: filter_empty_conv)
  with False show ?thesis by (simp add: upsert_def)
next
  case True
  then obtain r where r: "r \<in> set t" "row_key r = k" by auto
  let ?f = "\<lambda>r. if row_key r = k then r\<lparr>row_value := v, updated_at := now\<rparr> else r"
  let ?g = "\<lambda>r. if row_key r = k then r\<lparr>updated_at := now\<rparr> else r"
  have "filter (\<lambda>r. row_key r = k) (map ?g (map ?f t))
        = map ?g (map ?f (filter (\<lambda>r. row_key r = k) t))"
    by (induction t) auto
  also have "filter (\<lambda>r. row_key r = k) t = [r]"
    using primaryKey_unique_row [OF assms r(1)] r(2) by simp
  finally have "filter (\<lambda>r. row_key r = k) (upsert now k v t)
        = [\<lparr>row_key = k, row_value = v, created_at = created_at r, updated_at = now\<rparr>]"
    using True r(2) by (simp add: upsert_def settings_updated_at_def)
  then show ?thesis by blast
qed

lemma SetSetting_ok:
  assumes "fault (conn db) Exec = None" and "length (serverKey (encryption db)) = 32"
    and "12 \<le> length rand_Reader"
  shows "SetSetting chacha rand_Reader now db k v =
           (None, db\<lparr>conn := (conn db)\<lparr>rows_settings :=
              upsert now k
                (EncodeToString (take 12 rand_Reader
                   @ Seal chacha (serverKey (encryption db)) (take 12 rand_Reader) v))
                (rows_settings (conn db))\<rparr>\<rparr>)"
  using assms by (simp add: SetSetting_def de_Encrypt_ok)

lemma GetSetting_row:
  assumes "fault (conn db) Query = None" and "fault (conn db) Scan = None"
    and "filter (\<lambda>r. row_key r = k) (rows_settings (conn db)) = r # rs"
  shows "GetSetting chacha db k =
           (case de_Decrypt chacha (encryption db) (row_value r) of
              Inl err \<Rightarrow> Inl (fmt_Errorf ''failed to decrypt setting value: %w'' [ArgW err])
            | Inr decryptedValue \<Rightarrow> Inr decryptedValue)"
  using assms by (simp add: GetSetting_def QueryRow_value_def)

lemma GetSetting_absent:
  assumes "fault (conn db) Query = None"
    and "k \<notin> set (map row_key (rows_settings (conn db)))"
  shows "GetSetting chacha db k = Inl (fmt_Errorf ''setting not found: %s'' [ArgS k])"
proof -
  from assms(2) have "filter (\<lambda>r. row_key r = k) (rows_settings (conn db)) = []"
    by (auto simp add: filter_empty_conv)
  with assms(1) show ?thesis by (simp add: GetSetting_def QueryRow_value_def)
qed

text \<open>
  C7. Two writes \<open>v1\<close>, \<open>v2\<close> to one key, then a read: the read gives \<open>v2\<close>, the table has
  exactly one row with the key, and that row carries the time of the second write in
  \<open>updated_at\<close>. The storage engine reports no error, the table satisfies its primary
  key, the random source delivers both nonces, and the AEAD of the library opens what it
  sealed for the second write.
\<close>

theorem SetSetting_upsert:
  assumes "\<forall>call. fault (conn db) call = None"
    and "primaryKey (rows_settings (conn db))"
    and "NewDatabaseEncryption K = Inr (encryption db)"
    and "12 \<le> length rand1" and "12 \<le> length rand2"
    and "Open chacha K (take 12 rand2) (Seal chacha K (take 12 rand2) v2) = Some v2"
    and "SetSetting chacha rand1 t1 db k v1 = (e1, db1)"
    and "SetSetting chacha rand2 t2 db1 k v2 = (e2, db2)"
  shows "e1 = None \<and> e2 = None \<and> GetSetting chacha db2 k = Inr v2 \<and>
         length (filter (\<lambda>r. row_key r = k) (rows_settings (conn db2))) = 1 \<and>
         (\<forall>r \<in> set (rows_settings (conn db2)). row_key r = k \<longrightarrow> updated_at r = t2) \<and>
         primaryKey (rows_settings (conn db2))"
proof -
  from assms(3) have key: "serverKey (encryption db) = K" and len: "length K = 32"
    by (auto simp add: NewDatabaseEncryption_Inr)
  from assms(1) have nf: "fault (conn db) Exec = None" "fault (conn db) Query = None"
    "fault (conn db) Scan = None" by simp_all
  let ?env1 = "EncodeToString (take 12 rand1 @ Seal chacha K (take 12 rand1) v1)"
  let ?env2 = "EncodeToString (take 12 rand2 @ Seal chacha K (take 12 rand2) v2)"
  from SetSetting_ok [of db rand1 chacha t1 k v1] nf(1) key len assms(4,7)
  have e1: "e1 = None"
    and db1: "db1 = db\<lparr>conn := (conn db)\<lparr>rows_settings :=
                 upsert t1 k ?env1 (rows_settings (conn db))\<rparr>\<rparr>"
    by auto
  have pk1: "primaryKey (rows_settings (conn db1))"
    using assms(2) by (simp add: db1 primaryKey_upsert)
  from SetSetting_ok [of db1 rand2 chacha t2 k v2] nf(1) key len assms(5,8)
  have e2: "e2 = None"
    and db2: "db2 = db1\<lparr>conn := (conn db1)\<lparr>rows_settings :=
                 upsert t2 k ?env2 (rows_settings (conn db1))\<rparr>\<rparr>"
    by (auto simp add: db1)
  from filter_upsert [OF pk1, of k t2 ?env2]
  obtain c where f: "filter (\<lambda>r. row_key r = k) (rows_settings (conn db2)) =
      [\<lparr>row_key = k, row_value = ?env2, created_at = c, updated_at = t2\<rparr>]"
    by (auto simp add: db2)
  have n: "length (take 12 rand2) = 12" using assms(5) by simp
  have "de_Decrypt chacha (encryption db2) ?env2 = Inr v2"
    using de_Decrypt_envelope [of "encryption db2" "take 12 rand2" chacha] key len n assms(6)
    by (simp add: db2 db1)
  with GetSetting_row [of db2 k _ "[]" chacha] f nf
  have get: "GetSetting chacha db2 k = Inr v2"
    by (simp add: db2 db1)
  have upd: "\<forall>r \<in> set (rows_settings (conn db2)). row_key r = k \<longrightarrow> updated_at r = t2"
  proof (intro ballI impI)
    fix r assume "r \<in> set (rows_settings (conn db2))" "row_key r = k"
    then have "r \<in> set (filter (\<lambda>r. row_key r = k) (rows_settings (conn db2)))" by simp
    with f show "updated_at r = t2" by simp
  qed
  have pk2: "primaryKey (rows_settings (conn db2))"
    using pk1 by (simp add: db2 primaryKey_upsert)
  from e1 e2 get f upd pk2 show ?thesis by simp
qed

lemma NewDatabaseEncryption_sampleKey:
  "NewDatabaseEncryption sampleKey = Inr (encryption sampleDB)"
  by (simp add: NewDatabaseEncryption_def sampleDB_def sampleKey_def chacha20KeySize_def)

lemma sampleDB_no_fault: "\<forall>call. fault (conn sampleDB) call = None"
  by (simp add: sampleDB_def)

theorem SetSetting_upsert_witness:
  "GetSetting sampleAEAD
     (snd (SetSetting sampleAEAD ''ABCDEFGHIJKLMNOP'' 7
        (snd (SetSetting sampleAEAD ''abcdefghijklmnop'' 5 sampleDB ''k'' ''v1'')) ''k'' ''v2''))
     ''k'' = Inr ''v2''"
proof -
  have pk: "primaryKey (rows_settings (conn sampleDB))"
    by (simp add: sampleDB_def primaryKey_def)
  have r: "12 \<le> length ''abcdefghijklmnop''" "12 \<le> length ''ABCDEFGHIJKLMNOP''"
    by simp_all
  have a: "Open sampleAEAD sampleKey (take 12 ''ABCDEFGHIJKLMNOP'')
             (Seal sampleAEAD sampleKey (take 12 ''ABCDEFGHIJKLMNOP'') ''v2'') = Some ''v2''"
    by (rule sampleAEAD_Open_Seal) (simp_all add: sampleKey_def)
  from SetSetting_upsert [OF sampleDB_no_fault pk NewDatabaseEncryption_sampleKey r a
      surjective_pairing surjective_pairing]
  show ?thesis by simp
qed

lemma DeleteSetting_ok:
  assumes "fault (conn db) Exec = None" and "fault (conn db) RowsAffected = None"
  shows "DeleteSetting db k =
           ((if k \<in> set (map row_key (rows_settings (conn db))) then None
             else Some (fmt_Errorf ''setting not found: %s'' [ArgS k])),
            db\<lparr>conn := (conn db)\<lparr>rows_settings :=
                  filter (\<lambda>r. row_key r \<noteq> k) (rows_settings (conn db))\<rparr>\<rparr>)"
proof -
  have "length (filter (\<lambda>r. row_key r = k) (rows_settings (conn db))) = 0
        \<longleftrightarrow> k \<notin> set (map row_key (rows_settings (conn db)))"
    by (auto simp add: filter_empty_conv)
  with assms show ?thesis by (simp add: DeleteSetting_def Let_def)
qed

text \<open>
  C8. Deleting an absent key fails with the error \<open>setting not found\<close>, deleting a present
  key succeeds, and after a write and a delete of one key a read of it fails with
  \<open>setting not found\<close>. The storage engine reports no error and the random source
  delivers the nonce of the write.
\<close>

theorem DeleteSetting_not_found:
  assumes "\<forall>call. fault (conn db) call = None"
    and "NewDatabaseEncryption K = Inr (encryption db)"
    and "12 \<le> length rand_Reader"
    and "SetSetting chacha rand_Reader now db k v = (e1, db1)"
    and "DeleteSetting db1 k = (e2, db2)"
  shows "(k' \<notin> set (map row_key (rows_settings (conn db))) \<longrightarrow>
            fst (DeleteSetting db k') = Some (fmt_Errorf ''setting not found: %s'' [ArgS k'])) \<and>
         (k' \<in> set (map row_key (rows_settings (conn db))) \<longrightarrow>
            fst (DeleteSetting db k') = None) \<and>
         e1 = None \<and> e2 = None \<and>
         GetSetting chacha db2 k = Inl (fmt_Errorf ''setting not found: %s'' [ArgS k]) \<and>
         fst (DeleteSetting db2 k) = Some (fmt_Errorf ''setting not found: %s'' [ArgS k])"
proof -
  from assms(2) have len: "length (serverKey (encryption db)) = 32"
    by (auto simp add: NewDatabaseEncryption_Inr)
  from assms(1) have nf: "fault (conn db) Exec = None" "fault (conn db) Query = None"
    "fault (conn db) RowsAffected = None" by simp_all
  from SetSetting_ok [OF nf(1) len assms(3), of chacha now k v] assms(4)
  have e1: "e1 = None"
    and db1: "db1 = db\<lparr>conn := (conn db)\<lparr>rows_settings :=
                 upsert now k
                   (EncodeToString (take 12 rand_Reader
                      @ Seal chacha (serverKey (encryption db)) (take 12 rand_Reader) v))
                   (rows_settings (conn db))\<rparr>\<rparr>"
    by auto
  have nf1: "fault (conn db1) Exec = None" "fault (conn db1) RowsAffected = None"
    using nf by (simp_all add: db1)
  have present: "k \<in> set (map row_key (rows_settings (conn db1)))"
    by (simp add: db1 map_row_key_upsert)
  from DeleteSetting_ok [OF nf1, of k] assms(5) present
  have e2: "e2 = None"
    and db2: "db2 = db1\<lparr>conn := (conn db1)\<lparr>rows_settings :=
                 filter (\<lambda>r. row_key r \<noteq> k) (rows_settings (conn db1))\<rparr>\<rparr>"
    by auto
  have nf2: "fault (conn db2) Query = None" "fault (conn db2) Exec = None"
    "fault (conn db2) RowsAffected = None"
    using nf by (simp_all add: db2 db1)
  have absent: "k \<notin> set (map row_key (rows_settings (conn db2)))"
    by (auto simp add: db2)
  from GetSetting_absent [OF nf2(1) absent]
  have get: "GetSetting chacha db2 k = Inl (fmt_Errorf ''setting not found: %s'' [ArgS k])" .
  from DeleteSetting_ok [OF nf2(2,3), of k] absent
  have again: "fst (DeleteSetting db2 k) = Some (fmt_Errorf ''setting not found: %s'' [ArgS k])"
    by simp
  from DeleteSetting_ok [OF nf(1,3), of k'] e1 e2 get again show ?thesis by simp
qed

theorem DeleteSetting_not_found_witness:
  "fst (DeleteSetting sampleDB ''non_existent_key'') =
     Some (fmt_Errorf ''setting not found: %s'' [ArgS ''non_existent_key'']) \<and>
   GetSetting sampleAEAD
     (snd (DeleteSetting
        (snd (SetSetting sampleAEAD ''abcdefghijklmnop'' 5 sampleDB ''delete_test''
                ''to_be_deleted'')) ''delete_test''))
     ''delete_test'' = Inl (fmt_Errorf ''setting not found: %s'' [ArgS ''delete_test''])"
proof -
  have r: "12 \<le> length ''abcdefghijklmnop''" by simp
  from DeleteSetting_not_found [OF sampleDB_no_fault NewDatabaseEncryption_sampleKey r
      surjective_pairing surjective_pairing, of "''non_existent_key''"]
  show ?thesis by (simp add: sampleDB_def)
qed

section \<open>Reading all settings\<close>

text \<open>
  Without scan errors the loop returns the map it started from, overwritten at the key of
  each row that decrypts; the rows that do not decrypt leave it as it was.
\<close>

lemma scanSettings_result:
  assumes "fault (conn db) Scan = None" and "primaryKey rows"
  shows "scanSettings chacha db rows m =
           Inr (\<lambda>k. case find (\<lambda>r. row_key r = k) rows of
                       None \<Rightarrow> m k
                     | Some r \<Rightarrow>
                         (case de_Decrypt chacha (encryption db) (row_value r) of
                            Inl err \<Rightarrow> m k
                          | Inr decryptedValue \<Rightarrow> Some decryptedValue))"
  using assms(2)
proof (induction rows arbitrary: m)
  case Nil
  show ?case by simp
next
  case (Cons r rows)
  let ?dec = "\<lambda>r. de_Decrypt chacha (encryption db) (row_value r)"
  let ?res = "\<lambda>rows m k. case find (\<lambda>r. row_key r = k) rows of
                 None \<Rightarrow> m k
               | Some r \<Rightarrow> (case ?dec r of Inl err \<Rightarrow> m k | Inr v \<Rightarrow> Some v)"
  from Cons.prems have fresh: "find (\<lambda>r'. row_key r' = row_key r) rows = None"
    and pk: "primaryKey rows"
    by (auto simp add: primaryKey_def find_None_iff image_iff)
  show ?case
  proof (cases "?dec r")
    case (Inl err)
    then have "scanSettings chacha db (r # rows) m = scanSettings chacha db rows m"
      using assms(1) by simp
    also have "\<dots> = Inr (?res rows m)" by (rule Cons.IH [OF pk])
    also have "?res rows m = ?res (r # rows) m"
    proof
      fix k show "?res rows m k = ?res (r # rows) m k"
        using fresh Inl by (cases "row_key r = k") auto
    qed
    finally show ?thesis .
  next
    case (Inr v)
    then have "scanSettings chacha db (r # rows) m
               = scanSettings chacha db rows (m(row_key r \<mapsto> v))"
      using assms(1) by simp
    also have "\<dots> = Inr (?res rows (m(row_key r \<mapsto> v)))" by (rule Cons.IH [OF pk])
    also have "?res rows (m(row_key r \<mapsto> v)) = ?res (r # rows) m"
    proof
      fix k show "?res rows (m(row_key r \<mapsto> v)) k = ?res (r # rows) m k"
        using fresh Inr by (cases "row_key r = k") (auto split: option.splits sum.splits)
    qed
    finally show ?thesis .
  qed
qed

lemma find_row:
  "primaryKey t \<Longrightarrow> r \<in> set t \<Longrightarrow> find (\<lambda>r'. row_key r' = row_key r) t = Some r"
proof (induction t)
  case Nil
  then show ?case by simp
next
  case (Cons x t)
  then show ?case by (auto simp add: primaryKey_def image_iff)
qed

text \<open>
  C9. When the storage engine reports no error, \<open>GetAllSettings\<close> returns a map whatever
  the rows hold: a row that decrypts is in the map under its key with the decrypted
  value, a row that does not decrypt is left out, and no other key is in the map.
  \<open>GetSetting\<close> on a row that does not decrypt returns the decryption error instead. The
  table satisfies its primary key.
\<close>

theorem GetAllSettings_skips_undecryptable:
  assumes "fault (conn db) Query = None" and "fault (conn db) Scan = None"
    and "fault (conn db) RowsErr = None"
    and "primaryKey (rows_settings (conn db))"
  shows "\<exists>settings. GetAllSettings chacha db = Inr settings \<and>
           (\<forall>r \<in> set (rows_settings (conn db)).
              (\<forall>v. de_Decrypt chacha (encryption db) (row_value r) = Inr v \<longrightarrow>
                 settings (row_key r) = Some v) \<and>
              (\<forall>err. de_Decrypt chacha (encryption db) (row_value r) = Inl err \<longrightarrow>
                 settings (row_key r) = None \<and>
                 GetSetting chacha db (row_key r) =
                   Inl (fmt_Errorf ''failed to decrypt setting value: %w'' [ArgW err]))) \<and>
           (\<forall>k. k \<notin> set (map row_key (rows_settings (conn db))) \<longrightarrow> settings k = None)"
proof -
  let ?rows = "rows_settings (conn db)"
  let ?m = "\<lambda>k. case find (\<lambda>r. row_key r = k) ?rows of
                   None \<Rightarrow> None
                 | Some r \<Rightarrow>
                     (case de_Decrypt chacha (encryption db) (row_value r) of
                        Inl err \<Rightarrow> None
                      | Inr decryptedValue \<Rightarrow> Some decryptedValue)"
  have all: "GetAllSettings chacha db = Inr ?m"
    using assms(1,3) scanSettings_result [OF assms(2,4), of chacha Map.empty]
    by (simp add: GetAllSettings_def)
  have rows: "(\<forall>v. de_Decrypt chacha (encryption db) (row_value r) = Inr v \<longrightarrow>
                 ?m (row_key r) = Some v) \<and>
              (\<forall>err. de_Decrypt chacha (encryption db) (row_value r) = Inl err \<longrightarrow>
                 ?m (row_key r) = None \<and>
                 GetSetting chacha db (row_key r) =
                   Inl (fmt_Errorf ''failed to decrypt setting value: %w'' [ArgW err]))"
    if r: "r \<in> set ?rows" for r
    using find_row [OF assms(4) r]
      GetSetting_row [OF assms(1,2) primaryKey_unique_row [OF assms(4) r], of chacha]
    by simp
  have others: "?m k = None" if "k \<notin> set (map row_key ?rows)" for k
  proof -
    from that have "find (\<lambda>r. row_key r = k) ?rows = None"
      by (auto simp add: find_None_iff)
    then show ?thesis by simp
  qed
  from all rows others show ?thesis by blast
qed

lemma DecodeString_hello:
  "DecodeString ''YWJjZGVmZ2hpamtsaGVsbG9hYmNkZWZnaGlqa2wwMTIz''
     = Inr ''abcdefghijklhelloabcdefghijkl0123''"
  by (simp add: DecodeString_def decodeMap_def encodeStd_def quantumBytes_def Let_def
      char_of_eq_iff)

lemma de_Decrypt_sampleRows:
  "de_Decrypt sampleAEAD \<lparr>serverKey = sampleKey\<rparr>
     ''YWJjZGVmZ2hpamtsaGVsbG9hYmNkZWZnaGlqa2wwMTIz'' = Inr ''hello''"
  "de_Decrypt sampleAEAD \<lparr>serverKey = sampleKey\<rparr> ''!!!!'' =
     Inl (fmt_Errorf ''failed to decode base64: %w'' [ArgW CorruptInputError])"
  by (simp_all add: de_Decrypt_def DecodeString_hello DecodeString_bangs
      chacha20poly1305_New_def chacha20poly1305_KeySize_def chacha20poly1305_NonceSize_def
      sampleKey_def sampleAEAD_def)

theorem GetAllSettings_skips_undecryptable_witness:
  "\<exists>settings.
     GetAllSettings sampleAEAD
       (sampleDB\<lparr>conn := (conn sampleDB)\<lparr>rows_settings := sampleRows\<rparr>\<rparr>) = Inr settings \<and>
     settings ''good'' = Some ''hello'' \<and> settings ''bad'' = None \<and>
     GetSetting sampleAEAD
       (sampleDB\<lparr>conn := (conn sampleDB)\<lparr>rows_settings := sampleRows\<rparr>\<rparr>) ''bad'' =
       Inl (fmt_Errorf ''failed to decrypt setting value: %w''
              [ArgW (fmt_Errorf ''failed to decode base64: %w'' [ArgW CorruptInputError])])"
proof -
  let ?db = "sampleDB\<lparr>conn := (conn sampleDB)\<lparr>rows_settings := sampleRows\<rparr>\<rparr>"
  have nf: "fault (conn ?db) Query = None" "fault (conn ?db) Scan = None"
    "fault (conn ?db) RowsErr = None"
    by (simp_all add: sampleDB_def)
  have pk: "primaryKey (rows_settings (conn ?db))"
    by (simp add: primaryKey_def sampleRows_def)
  have enc: "encryption ?db = \<lparr>serverKey = sampleKey\<rparr>"
    by (simp add: sampleDB_def)
  from GetAllSettings_skips_undecryptable [OF nf pk, of sampleAEAD]
  obtain settings where s: "GetAllSettings sampleAEAD ?db = Inr settings"
    and rows: "\<forall>r \<in> set sampleRows.
      (\<forall>v. de_Decrypt sampleAEAD \<lparr>serverKey = sampleKey\<rparr> (row_value r) = Inr v \<longrightarrow>
         settings (row_key r) = Some v) \<and>
      (\<forall>err. de_Decrypt sampleAEAD \<lparr>serverKey = sampleKey\<rparr> (row_value r) = Inl err \<longrightarrow>
         settings (row_key r) = None \<and>
         GetSetting sampleAEAD ?db (row_key r) =
           Inl (fmt_Errorf ''failed to decrypt setting value: %w'' [ArgW err]))"
    unfolding enc by auto
  from rows have "settings ''good'' = Some ''hello''"
    by (simp add: sampleRows_def de_Decrypt_sampleRows)
  moreover from rows have "settings ''bad'' = None \<and>
    GetSetting sampleAEAD ?db ''bad'' =
      Inl (fmt_Errorf ''failed to decrypt setting value: %w''
             [ArgW (fmt_Errorf ''failed to decode base64: %w'' [ArgW CorruptInputError])])"
    by (simp add: sampleRows_def de_Decrypt_sampleRows)
  ultimately show ?thesis using s by blast
qed

section \<open>Transactions\<close>













end
